theory Spec2Isabelle
  imports Main
begin

section \<open>Python and JavaScript values\<close>

text \<open>
  The module \<^verbatim>\<open>bzt/resources/selenium_extras.py\<close> is glue between test scripts and a
  Selenium driver. Strings are modelled as \<^typ>\<open>string\<close>, restricted to their ASCII
  fragment; Python values that are tested for truth are values of \<open>pyval\<close>; every
  exception the module can raise or let through is a constructor of \<open>error\<close>.
\<close>

datatype pyval = PyNone | PyBool bool | PyInt int | PyStr string | PyList "pyval list"

text \<open>Python's truth value of an object, as used by \<^verbatim>\<open>not x\<close> and \<^verbatim>\<open>x or y\<close>.\<close>

fun truthy :: "pyval \<Rightarrow> bool" where
  "truthy PyNone = False"
| "truthy (PyBool b) = b"
| "truthy (PyInt n) = (n \<noteq> 0)"
| "truthy (PyStr s) = (s \<noteq> [])"
| "truthy (PyList xs) = (xs \<noteq> [])"

text \<open>The comparison \<^verbatim>\<open>x == 0\<close>; \<^verbatim>\<open>False == 0\<close> holds in Python.\<close>

fun eq_zero :: "pyval \<Rightarrow> bool" where
  "eq_zero (PyInt n) = (n = 0)"
| "eq_zero (PyBool b) = (\<not> b)"
| "eq_zero _ = False"

datatype error =
    NoSuchElementException string
  | NoSuchWindowException string
  | NoSuchFrameException string
  | IndexError
  | KeyError string
  | TypeError string
  | ValueError string
  | JavascriptException string

subsection \<open>String operations\<close>

text \<open>\<^verbatim>\<open>str.lower()\<close> on ASCII text: the 26 capital letters are replaced, the rest is kept.\<close>

definition lower_char :: "char \<Rightarrow> char" where
  "lower_char c =
     (case map_of (zip ''ABCDEFGHIJKLMNOPQRSTUVWXYZ'' ''abcdefghijklmnopqrstuvwxyz'') c of
        None \<Rightarrow> c
      | Some l \<Rightarrow> l)"

definition lower :: "string \<Rightarrow> string" where
  "lower s = map lower_char s"

text \<open>\<^verbatim>\<open>s.startswith(p)\<close>.\<close>

definition startswith :: "string \<Rightarrow> string \<Rightarrow> bool" where
  "startswith s p = (take (length p) s = p)"

text \<open>\<^verbatim>\<open>s.split(sep)\<close> for a one-character separator: never an empty list.\<close>

fun split :: "char \<Rightarrow> string \<Rightarrow> string list" where
  "split sep [] = [[]]"
| "split sep (c # cs) =
     (if c = sep then [] # split sep cs
      else (case split sep cs of
              [] \<Rightarrow> [[c]]
            | w # ws \<Rightarrow> (c # w) # ws))"

text \<open>
  Python's \<^verbatim>\<open>xs[i]\<close>: a negative index counts from the end, and an index outside the
  list raises \<^verbatim>\<open>IndexError\<close>.
\<close>

definition py_index :: "'a list \<Rightarrow> int \<Rightarrow> error + 'a" where
  "py_index xs i =
     (let j = (if i < 0 then i + int (length xs) else i)
      in if j < 0 \<or> int (length xs) \<le> j then Inl IndexError else Inr (xs ! nat j))"

text \<open>
  \<^verbatim>\<open>str.isdigit()\<close> and \<^verbatim>\<open>int(s)\<close> on ASCII text. \<^verbatim>\<open>int\<close> strips the surrounding
  whitespace (space, tab, line feed, vertical tab, form feed, carriage return), accepts
  one sign and single underscores between digits, and raises \<^verbatim>\<open>ValueError\<close> (here
  \<open>None\<close>) on anything else, also on a text with more digits than the interpreter's
  limit for the conversion, which is 4300.
\<close>

definition digit_val :: "char \<Rightarrow> nat option" where
  "digit_val c = map_of (zip ''0123456789'' [0, 1, 2, 3, 4, 5, 6, 7, 8, 9]) c"

text \<open>The value of a character as a digit, zero for any other character.\<close>

definition digit_of :: "char \<Rightarrow> nat" where
  "digit_of c = (case digit_val c of None \<Rightarrow> 0 | Some v \<Rightarrow> v)"

definition isdigit :: "string \<Rightarrow> bool" where
  "isdigit s = (s \<noteq> [] \<and> list_all (\<lambda>c. digit_val c \<noteq> None) s)"

definition is_space :: "char \<Rightarrow> bool" where
  "is_space c = (c \<in> set [CHR '' '', CHR 0x09, CHR 0x0A, CHR 0x0B, CHR 0x0C, CHR 0x0D])"

definition strip :: "string \<Rightarrow> string" where
  "strip s = rev (dropWhile is_space (rev (dropWhile is_space s)))"

fun digits_from :: "nat \<Rightarrow> string \<Rightarrow> nat option" where
  "digits_from acc [] = Some acc"
| "digits_from acc [c] =
     (case digit_val c of None \<Rightarrow> None | Some v \<Rightarrow> Some (acc * 10 + v))"
| "digits_from acc (c # d # ds) =
     (if c = CHR ''_'' then
        (case digit_val d of None \<Rightarrow> None | Some v \<Rightarrow> digits_from (acc * 10 + v) ds)
      else
        (case digit_val c of None \<Rightarrow> None | Some v \<Rightarrow> digits_from (acc * 10 + v) (d # ds)))"

definition max_str_digits :: nat where
  "max_str_digits = 4300"

definition digits :: "string \<Rightarrow> nat option" where
  "digits s =
     (if length (filter (\<lambda>c. c \<noteq> CHR ''_'') s) > max_str_digits then None
      else case s of
             [] \<Rightarrow> None
           | c # cs \<Rightarrow> (case digit_val c of None \<Rightarrow> None | Some v \<Rightarrow> digits_from v cs))"

definition py_int :: "string \<Rightarrow> int option" where
  "py_int s =
     (case strip s of
        [] \<Rightarrow> None
      | c # cs \<Rightarrow>
          if c = CHR ''-'' then map_option (\<lambda>n. - int n) (digits cs)
          else if c = CHR ''+'' then map_option int (digits cs)
          else map_option int (digits (c # cs)))"

subsection \<open>JavaScript values of the page\<close>

datatype jsval = JUndefined | JNull | JBool bool | JStr string | JArray "jsval list"

text \<open>JavaScript's truthiness: an array, even an empty one, is truthy.\<close>

fun js_truthy :: "jsval \<Rightarrow> bool" where
  "js_truthy JUndefined = False"
| "js_truthy JNull = False"
| "js_truthy (JBool b) = b"
| "js_truthy (JStr s) = (s \<noteq> [])"
| "js_truthy (JArray xs) = True"

text \<open>The functions a dialog slot of \<^verbatim>\<open>window\<close> can hold: the browser's own or the override.\<close>

datatype dialog_fn = Native | Webdriver

section \<open>The driver\<close>

text \<open>
  \<^verbatim>\<open>By\<close> is Selenium's enumeration of selector kinds; \<^verbatim>\<open>BYS\<close> maps the module's
  strategy tags to it.
\<close>

datatype By = XPATH | CSS_SELECTOR | NAME | ID | LINK_TEXT

definition BYS :: "string \<Rightarrow> By option" where
  "BYS = map_of [(''xpath'', XPATH), (''css'', CSS_SELECTOR), (''name'', NAME), (''id'', ID),
                 (''linktext'', LINK_TEXT)]"

type_synonym element = nat

text \<open>A frame of the page: its name (or id) and the frames nested in it.\<close>

datatype frame = Frame (frame_id: string) (subframes: "frame list")

text \<open>The properties of \<^verbatim>\<open>window\<close> that the injected scripts read or write.\<close>

record window =
  alert :: dialog_fn
  confirm :: dialog_fn
  prompt :: dialog_fn
  webdriverAlerts :: jsval
  webdriverOriginalAlert :: "dialog_fn option"
  webdriverNextAlert :: jsval
  webdriverConfirms :: jsval
  webdriverNextConfirm :: jsval
  webdriverPrevConfirm :: "dialog_fn option"
  webdriverPrompts :: jsval
  webdriverNextPrompts :: jsval
  webdriverNextPrompt :: jsval

text \<open>
  The browser session behind the driver handle returned by \<^verbatim>\<open>_get_driver()\<close>:
  \<^item> \<open>implicit_wait\<close>: the value last given to \<^verbatim>\<open>implicitly_wait\<close>;
  \<^item> \<open>lookups\<close>: every \<^verbatim>\<open>find_elements\<close> call so far, with the wait in force;
  \<^item> \<open>window_handles\<close> and \<open>current_window\<close>: the open windows, oldest first, and the
    focused one;
  \<^item> \<open>top\<close> and \<open>frame_path\<close>: the frame tree of the page and the child positions leading
    from the top-level document to the focused frame;
  \<^item> \<open>page\<close>: the script-visible state of \<^verbatim>\<open>window\<close>;
  \<^item> \<open>native_dialogs\<close>: the messages of the real alert dialogs shown to the user.
\<close>

record driver =
  implicit_wait :: pyval
  lookups :: "(pyval \<times> By \<times> string) list"
  window_handles :: "string list"
  current_window :: string
  top :: frame
  frame_path :: "nat list"
  page :: window
  native_dialogs :: "jsval list"

section \<open>Locator resolution\<close>

text \<open>
  \<^verbatim>\<open>_get_timeout\<close>. The argument is what \<^verbatim>\<open>get_from_thread_store("timeout")\<close> returned;
  the thread store belongs to the test harness and is read only.
\<close>

definition get_timeout :: "pyval \<Rightarrow> pyval" where
  "get_timeout timeout = (if \<not> (truthy timeout \<or> eq_zero timeout) then PyInt 30 else timeout)"

text \<open>
  The two driver calls of locator resolution. What a lookup reports depends on the page and
  on the implicit wait in force, so the page is a function \<open>doc\<close> from the wait, the
  selector kind and the value to the elements found.
\<close>

type_synonym document = "pyval \<Rightarrow> By \<Rightarrow> string \<Rightarrow> element list"

definition implicitly_wait :: "pyval \<Rightarrow> driver \<Rightarrow> driver" where
  "implicitly_wait t d = d\<lparr>implicit_wait := t\<rparr>"

definition find_elements :: "document \<Rightarrow> By \<Rightarrow> string \<Rightarrow> driver \<Rightarrow> element list \<times> driver" where
  "find_elements doc b v d =
     (doc (implicit_wait d) b v, d\<lparr>lookups := lookups d @ [(implicit_wait d, b, v)]\<rparr>)"

text \<open>
  A locator is a Python dictionary with one entry, the strategy tag and the value; the
  code reads its first key, so it is an association list here.
\<close>

type_synonym locator = "(string \<times> string) list"

text \<open>
  The \<^verbatim>\<open>for\<close> loop of \<^verbatim>\<open>get_locator\<close>. The result is \<open>Inr (Some l)\<close> when the loop
  was left by \<^verbatim>\<open>break\<close> with the locator \<open>l\<close>, \<open>Inr None\<close> when the list was exhausted
  (the \<^verbatim>\<open>else\<close> branch of the loop runs next) and \<open>Inl e\<close> when an exception escaped:
  \<^verbatim>\<open>IndexError\<close> from the first key of an empty dictionary, \<^verbatim>\<open>KeyError\<close> from
  \<^verbatim>\<open>BYS\<close>. The first locator seen and the driver are returned too.
\<close>

fun locator_loop ::
  "document \<Rightarrow> (By \<times> string) option \<Rightarrow> driver \<Rightarrow> locator list \<Rightarrow>
     (error + (By \<times> string) option) \<times> (By \<times> string) option \<times> driver" where
  "locator_loop doc first_locator d [] = (Inr None, first_locator, d)"
| "locator_loop doc first_locator d (locator # rest) =
     (case locator of
        [] \<Rightarrow> (Inl IndexError, first_locator, d)
      | (locator_type, locator_value) # _ \<Rightarrow>
          (case first_locator of
             None \<Rightarrow>
               (case BYS (lower locator_type) of
                  None \<Rightarrow> (Inl (KeyError (lower locator_type)), first_locator, d)
                | Some b \<Rightarrow>
                    (case find_elements doc b locator_value d of
                       (elements, d') \<Rightarrow>
                         if length elements > 0
                         then (Inr (Some (b, locator_value)), Some (b, locator_value), d')
                         else locator_loop doc (Some (b, locator_value)) d' rest))
           | Some _ \<Rightarrow>
               (case BYS (lower locator_type) of
                  None \<Rightarrow>
                    (Inl (KeyError (lower locator_type)), first_locator,
                     implicitly_wait (PyInt 0) d)
                | Some b \<Rightarrow>
                    (case find_elements doc b locator_value (implicitly_wait (PyInt 0) d) of
                       (elements, d') \<Rightarrow>
                         if length elements > 0
                         then (Inr (Some (b, locator_value)), first_locator, d')
                         else locator_loop doc first_locator d' rest))))"

text \<open>
  \<^verbatim>\<open>"Element not found: (%s, %s)" % first_locator\<close>. With \<^verbatim>\<open>None\<close> on the right the
  format has two places and one argument, which is a \<^verbatim>\<open>TypeError\<close>. \<open>str_by\<close> is the
  text of a member of \<^verbatim>\<open>By\<close>, which Selenium defines.
\<close>

definition format_not_found :: "(By \<Rightarrow> string) \<Rightarrow> (By \<times> string) option \<Rightarrow> error + string" where
  "format_not_found str_by first_locator =
     (case first_locator of
        None \<Rightarrow> Inl (TypeError ''not enough arguments for format string'')
      | Some (b, v) \<Rightarrow> Inr (''Element not found: ('' @ str_by b @ '', '' @ v @ '')''))"

definition get_locator ::
  "(By \<Rightarrow> string) \<Rightarrow> document \<Rightarrow> pyval \<Rightarrow> driver \<Rightarrow> locator list \<Rightarrow> bool \<Rightarrow>
     (error + By \<times> string) \<times> driver" where
  "get_locator str_by doc stored_timeout d locators ignore_implicit_wait =
     (let timeout = get_timeout stored_timeout;
          d0 = (if ignore_implicit_wait then implicitly_wait (PyInt 0) d else d)
      in case locator_loop doc None d0 locators of
           (Inl e, first_locator, d1) \<Rightarrow> (Inl e, d1)
         | (Inr (Some l), first_locator, d1) \<Rightarrow> (Inr l, implicitly_wait timeout d1)
         | (Inr None, first_locator, d1) \<Rightarrow>
             (case format_not_found str_by first_locator of
                Inl e \<Rightarrow> (Inl e, implicitly_wait timeout d1)
              | Inr msg \<Rightarrow> (Inl (NoSuchElementException msg), implicitly_wait timeout d1)))"

text \<open>
  What the claims about locator resolution speak of: the pair a well-formed locator stands
  for, whether a locator matches under a given wait, the wait under which the first
  candidate is tried, the wait of the candidate at position \<open>i\<close> when the first one is
  tried under \<open>w\<close>, and the lookups made for a list of candidates.
\<close>

definition candidate :: "locator \<Rightarrow> (By \<times> string) option" where
  "candidate l =
     (case l of
        [] \<Rightarrow> None
      | (t, v) # _ \<Rightarrow> (case BYS (lower t) of None \<Rightarrow> None | Some b \<Rightarrow> Some (b, v)))"

definition matches :: "document \<Rightarrow> pyval \<Rightarrow> locator \<Rightarrow> bool" where
  "matches doc w l = (case candidate l of None \<Rightarrow> False | Some (b, v) \<Rightarrow> doc w b v \<noteq> [])"

definition first_wait :: "driver \<Rightarrow> bool \<Rightarrow> pyval" where
  "first_wait d ignore_implicit_wait = (if ignore_implicit_wait then PyInt 0 else implicit_wait d)"

definition wait_at :: "pyval \<Rightarrow> nat \<Rightarrow> pyval" where
  "wait_at w i = (if i = 0 then w else PyInt 0)"

fun attempts :: "pyval \<Rightarrow> locator list \<Rightarrow> (pyval \<times> By \<times> string) list" where
  "attempts w [] = []"
| "attempts w (l # ls) =
     (case candidate l of
        None \<Rightarrow> []
      | Some (b, v) \<Rightarrow> (w, b, v) # attempts (PyInt 0) ls)"


section \<open>Dialog interception\<close>

text \<open>
  Each script handed to \<^verbatim>\<open>execute_script\<close> is a function on the driver, acting on the
  page. \<^verbatim>\<open>dialogs_replace\<close> returns at once when \<^verbatim>\<open>window.__webdriverAlerts\<close> is
  truthy; otherwise it runs its assignments in the order of the script. The script
  initialises \<^verbatim>\<open>__webdriverNextPrompts\<close>, not \<^verbatim>\<open>__webdriverNextPrompt\<close>.
\<close>

definition dialogs_replace :: "driver \<Rightarrow> driver" where
  "dialogs_replace d =
     (let w = page d
      in if js_truthy (webdriverAlerts w) then d
         else d\<lparr>page := w\<lparr>
                webdriverAlerts := JArray [],
                webdriverOriginalAlert := Some (alert w),
                webdriverNextAlert := JNull,
                alert := Webdriver,
                webdriverConfirms := JArray [],
                webdriverNextConfirm := JNull,
                webdriverPrevConfirm := Some (confirm w),
                confirm := Webdriver,
                webdriverPrompts := JArray [],
                webdriverNextPrompts := JBool True,
                prompt := Webdriver\<rparr>\<rparr>)"

text \<open>
  The last two statements of the override of \<^verbatim>\<open>window.alert\<close>: the pending answer is
  reset and the message is pushed on the queue, which must be an array.
\<close>

definition alert_record :: "jsval \<Rightarrow> driver \<Rightarrow> error + driver" where
  "alert_record msg d =
     (case webdriverAlerts (page d) of
        JArray q \<Rightarrow>
          Inr (d\<lparr>page := (page d)\<lparr>webdriverNextAlert := JNull,
                                   webdriverAlerts := JArray (q @ [msg])\<rparr>\<rparr>)
      | _ \<Rightarrow> Inl (JavascriptException ''window.__webdriverAlerts.push is not a function''))"

text \<open>
  A call of an alert function in the page. The browser's own function shows the dialog.
  The override calls the saved original when \<^verbatim>\<open>__webdriverNextAlert === null\<close>, and then
  records the message. The saved original can be the override itself on a page that was
  tampered with, and then the call does not return: the first argument bounds the depth of
  calls, and \<open>None\<close> says that the bound was reached.
\<close>

fun call_alert :: "nat \<Rightarrow> dialog_fn \<Rightarrow> jsval \<Rightarrow> driver \<Rightarrow> (error + driver) option" where
  "call_alert 0 f msg d = None"
| "call_alert (Suc n) Native msg d =
     Some (Inr (d\<lparr>native_dialogs := native_dialogs d @ [msg]\<rparr>))"
| "call_alert (Suc n) Webdriver msg d =
     (if webdriverNextAlert (page d) = JNull then
        (case webdriverOriginalAlert (page d) of
           None \<Rightarrow>
             Some (Inl (JavascriptException ''window.__webdriverOriginalAlert is not a function''))
         | Some f \<Rightarrow>
             (case call_alert n f msg d of
                None \<Rightarrow> None
              | Some (Inl e) \<Rightarrow> Some (Inl e)
              | Some (Inr d') \<Rightarrow> Some (alert_record msg d')))
      else Some (alert_record msg d))"

text \<open>The page calls \<^verbatim>\<open>window.alert(msg)\<close>.\<close>

definition window_alert :: "nat \<Rightarrow> jsval \<Rightarrow> driver \<Rightarrow> (error + driver) option" where
  "window_alert fuel msg d = call_alert fuel (alert (page d)) msg d"

definition dialogs_answer_on_next_alert :: "string \<Rightarrow> driver \<Rightarrow> driver" where
  "dialogs_answer_on_next_alert val d =
     (if lower val = ''#ok'' then d\<lparr>page := (page d)\<lparr>webdriverNextAlert := JBool True\<rparr>\<rparr>
      else d)"

text \<open>
  The script \<^verbatim>\<open>"window.__webdriverNextConfirm = %s;" % confirm\<close>, for the two texts that
  \<^verbatim>\<open>dialogs_answer_on_next_confirm\<close> puts in.
\<close>

definition assign_next_confirm :: "string \<Rightarrow> driver \<Rightarrow> driver" where
  "assign_next_confirm lit d =
     (if lit = ''true'' then d\<lparr>page := (page d)\<lparr>webdriverNextConfirm := JBool True\<rparr>\<rparr>
      else if lit = ''false'' then d\<lparr>page := (page d)\<lparr>webdriverNextConfirm := JBool False\<rparr>\<rparr>
      else d)"

definition dialogs_answer_on_next_confirm :: "string \<Rightarrow> driver \<Rightarrow> driver" where
  "dialogs_answer_on_next_confirm val d =
     (let confirm = (if lower val = ''#ok'' then ''true'' else ''false'')
      in assign_next_confirm confirm d)"

section \<open>Frame navigation\<close>

text \<open>\<^verbatim>\<open>"%s" % x\<close> for an optional string: \<^verbatim>\<open>None\<close> prints as its name.\<close>

definition py_str :: "string option \<Rightarrow> string" where
  "py_str x = (case x of None \<Rightarrow> ''None'' | Some s \<Rightarrow> s)"

text \<open>
  The driver's side of frame switching. The focused frame is found by walking the frame
  tree along \<open>frame_path\<close>; a child that does not exist is \<^verbatim>\<open>NoSuchFrameException\<close>.
\<close>

fun focused :: "frame \<Rightarrow> nat list \<Rightarrow> frame option" where
  "focused f [] = Some f"
| "focused f (i # path) =
     (if i < length (subframes f) then focused (subframes f ! i) path else None)"

fun frame_position :: "string \<Rightarrow> frame list \<Rightarrow> nat option" where
  "frame_position s [] = None"
| "frame_position s (f # fs) =
     (if frame_id f = s then Some 0 else map_option Suc (frame_position s fs))"

definition switch_to_default_content :: "driver \<Rightarrow> error + driver" where
  "switch_to_default_content d = Inr (d\<lparr>frame_path := []\<rparr>)"

definition switch_to_parent_frame :: "driver \<Rightarrow> error + driver" where
  "switch_to_parent_frame d = Inr (d\<lparr>frame_path := butlast (frame_path d)\<rparr>)"

definition switch_to_frame_index :: "int \<Rightarrow> driver \<Rightarrow> error + driver" where
  "switch_to_frame_index n d =
     (case focused (top d) (frame_path d) of
        None \<Rightarrow> Inl (NoSuchFrameException ''no such frame'')
      | Some f \<Rightarrow>
          if 0 \<le> n \<and> nat n < length (subframes f)
          then Inr (d\<lparr>frame_path := frame_path d @ [nat n]\<rparr>)
          else Inl (NoSuchFrameException ''no such frame''))"

definition switch_to_frame_name :: "string \<Rightarrow> driver \<Rightarrow> error + driver" where
  "switch_to_frame_name s d =
     (case focused (top d) (frame_path d) of
        None \<Rightarrow> Inl (NoSuchFrameException s)
      | Some f \<Rightarrow>
          (case frame_position s (subframes f) of
             None \<Rightarrow> Inl (NoSuchFrameException s)
           | Some i \<Rightarrow> Inr (d\<lparr>frame_path := frame_path d @ [i]\<rparr>)))"

text \<open>
  \<^verbatim>\<open>FrameManager.switch\<close>. Only \<^verbatim>\<open>NoSuchFrameException\<close> is caught; the
  \<^verbatim>\<open>ValueError\<close> of \<^verbatim>\<open>int\<close> passes through.
\<close>

definition FrameManager_switch :: "string option \<Rightarrow> driver \<Rightarrow> error + driver" where
  "FrameManager_switch frame_name d =
     (let r =
        (case frame_name of
           None \<Rightarrow> switch_to_default_content d
         | Some s \<Rightarrow>
             if s = [] \<or> s = ''relative=top'' then switch_to_default_content d
             else if startswith s ''index='' then
               (case py_index (split CHR ''='' s) 1 of
                  Inl e \<Rightarrow> Inl e
                | Inr t \<Rightarrow>
                    (case py_int t of
                       None \<Rightarrow> Inl (ValueError t)
                     | Some n \<Rightarrow> switch_to_frame_index n d))
             else if s = ''relative=parent'' then switch_to_parent_frame d
             else switch_to_frame_name s d)
      in case r of
           Inl (NoSuchFrameException m) \<Rightarrow>
             Inl (NoSuchFrameException (''Invalid Frame ID: '' @ py_str frame_name))
         | _ \<Rightarrow> r)"

text \<open>
  The text that an argument beginning with \<^verbatim>\<open>index=\<close> carries: what stands between the
  first \<^verbatim>\<open>=\<close> and the next one, or the end.
\<close>

definition index_text :: "string \<Rightarrow> string" where
  "index_text s = takeWhile (\<lambda>c. c \<noteq> CHR ''='') (drop 6 s)"

section \<open>Window navigation\<close>

text \<open>\<^verbatim>\<open>str(n)\<close> for an integer.\<close>

fun str_nat :: "nat \<Rightarrow> string" where
  "str_nat n =
     (if n < 10 then [''0123456789'' ! n]
      else str_nat (n div 10) @ [''0123456789'' ! (n mod 10)])"

declare str_nat.simps [simp del]

definition str_int :: "int \<Rightarrow> string" where
  "str_int i = (if i < 0 then CHR ''-'' # str_nat (nat (- i)) else str_nat (nat i))"

text \<open>
  The driver's side: \<^verbatim>\<open>switch_to.window\<close> focuses an open window and raises
  \<^verbatim>\<open>NoSuchWindowException\<close> for anything else; \<^verbatim>\<open>close\<close> closes the focused window.
\<close>

definition switch_to_window :: "string \<Rightarrow> driver \<Rightarrow> error + driver" where
  "switch_to_window h d =
     (if h \<in> set (window_handles d) then Inr (d\<lparr>current_window := h\<rparr>)
      else Inl (NoSuchWindowException ''no such window''))"

definition driver_close :: "driver \<Rightarrow> error + driver" where
  "driver_close d =
     (if current_window d \<in> set (window_handles d)
      then Inr (d\<lparr>window_handles := removeAll (current_window d) (window_handles d)\<rparr>)
      else Inl (NoSuchWindowException ''no such window''))"

text \<open>The instance state of \<^verbatim>\<open>WindowManager\<close>: the dictionary \<^verbatim>\<open>self.windows\<close>.\<close>

record window_manager =
  windows :: "string \<rightharpoonup> string"

definition WindowManager_init :: window_manager where
  "WindowManager_init = \<lparr>windows = Map.empty\<rparr>"

definition switch_by_idx :: "int \<Rightarrow> driver \<Rightarrow> error + driver" where
  "switch_by_idx win_index d =
     (let wnd_handlers = window_handles d
      in if int (length wnd_handlers) \<le> win_index \<and> win_index \<ge> 0 then
           (case py_index wnd_handlers win_index of
              Inl e \<Rightarrow> Inl e
            | Inr h \<Rightarrow> switch_to_window h d)
         else Inl (NoSuchWindowException (''Invalid Window ID: '' @ str_int win_index)))"

definition switch_by_win_ser ::
  "string \<Rightarrow> window_manager \<Rightarrow> driver \<Rightarrow> (error + driver) \<times> window_manager" where
  "switch_by_win_ser window_name self d =
     (if window_name = ''win_ser_local'' then
        (let wnd_handlers = window_handles d
         in if length wnd_handlers > 0 then
              (case py_index wnd_handlers 0 of
                 Inl e \<Rightarrow> (Inl e, self)
               | Inr h \<Rightarrow> (switch_to_window h d, self))
            else (Inl (NoSuchWindowException (''Invalid Window ID: '' @ window_name)), self))
      else
        (case windows self window_name of
           None \<Rightarrow>
             (case py_index (window_handles d) (- 1) of
                Inl e \<Rightarrow> (Inl e, self)
              | Inr h \<Rightarrow>
                  (switch_to_window h d, self\<lparr>windows := (windows self)(window_name \<mapsto> h)\<rparr>))
         | Some h \<Rightarrow> (switch_to_window h d, self)))"

definition WindowManager_switch ::
  "string option \<Rightarrow> window_manager \<Rightarrow> driver \<Rightarrow> (error + driver) \<times> window_manager" where
  "WindowManager_switch window_name self d =
     (let last_window =
            (case py_index (window_handles d) (- 1) of
               Inl e \<Rightarrow> (Inl e, self)
             | Inr h \<Rightarrow> (switch_to_window h d, self));
          (r, self') =
            (case window_name of
               None \<Rightarrow> last_window
             | Some s \<Rightarrow>
                 if s = [] then last_window
                 else if isdigit s then
                   (case py_int s of
                      None \<Rightarrow> (Inl (ValueError s), self)
                    | Some n \<Rightarrow> (switch_by_idx n d, self))
                 else if startswith s ''win_ser_'' then switch_by_win_ser s self d
                 else (switch_to_window s d, self))
      in case r of
           Inl (NoSuchWindowException m) \<Rightarrow>
             (Inl (NoSuchWindowException (''Invalid Window ID: '' @ py_str window_name)), self')
         | _ \<Rightarrow> (r, self'))"

definition WindowManager_close ::
  "string option \<Rightarrow> window_manager \<Rightarrow> driver \<Rightarrow> (error + driver) \<times> window_manager" where
  "WindowManager_close window_name self d =
     (case window_name of
        None \<Rightarrow> (driver_close d, self)
      | Some s \<Rightarrow>
          if s = [] then (driver_close d, self)
          else (case WindowManager_switch window_name self d of
                  (Inl e, self') \<Rightarrow> (Inl e, self')
                | (Inr d', self') \<Rightarrow> (driver_close d', self')))"

section \<open>A concrete session\<close>

text \<open>
  A browser session on which the operations are run: two open windows, a page with two
  frames of which the first has a frame of its own, no dialog override installed, and an
  implicit wait of five. The page has two buttons of class \<^verbatim>\<open>btn\<close> and an element with
  id \<^verbatim>\<open>late\<close> that appears only to a lookup that waits.
\<close>

definition fresh_page :: window where
  "fresh_page =
     \<lparr>alert = Native, confirm = Native, prompt = Native,
      webdriverAlerts = JUndefined, webdriverOriginalAlert = None,
      webdriverNextAlert = JUndefined,
      webdriverConfirms = JUndefined, webdriverNextConfirm = JUndefined,
      webdriverPrevConfirm = None,
      webdriverPrompts = JUndefined, webdriverNextPrompts = JUndefined,
      webdriverNextPrompt = JUndefined\<rparr>"

definition example_driver :: driver where
  "example_driver =
     \<lparr>implicit_wait = PyInt 5, lookups = [],
      window_handles = [''w0'', ''w1''], current_window = ''w0'',
      top = Frame ''top'' [Frame ''menu'' [Frame ''inner'' []], Frame ''main'' []],
      frame_path = [0],
      page = fresh_page, native_dialogs = []\<rparr>"

definition example_doc :: document where
  "example_doc w b v =
     (if b = CSS_SELECTOR \<and> v = ''.btn'' then [1, 2]
      else if b = ID \<and> v = ''late'' \<and> w \<noteq> PyInt 0 then [3]
      else [])"

text \<open>The texts of the members of \<^verbatim>\<open>By\<close> in Selenium.\<close>

definition selenium_by :: "By \<Rightarrow> string" where
  "selenium_by b =
     (case b of XPATH \<Rightarrow> ''xpath'' | CSS_SELECTOR \<Rightarrow> ''css selector'' | NAME \<Rightarrow> ''name''
      | ID \<Rightarrow> ''id'' | LINK_TEXT \<Rightarrow> ''link text'')"

section \<open>Properties of locator resolution\<close>

subsection \<open>One pass of the loop\<close>

lemma find_elements_simps:
  "fst (find_elements doc b v d) = doc (implicit_wait d) b v"
  "snd (find_elements doc b v d) = d\<lparr>lookups := lookups d @ [(implicit_wait d, b, v)]\<rparr>"
  by (simp_all add: find_elements_def)

lemma candidate_Some:
  "candidate l = Some (b, v) \<Longrightarrow> \<exists>t r. l = (t, v) # r \<and> BYS (lower t) = Some b"
  by (auto simp: candidate_def split: list.splits option.splits)

lemma loop_step_miss:
  assumes "candidate l = Some (b, v)"
    and "doc (if fl = None then implicit_wait d else PyInt 0) b v = []"
  shows "locator_loop doc fl d (l # ls) =
     locator_loop doc (if fl = None then Some (b, v) else fl)
       (d\<lparr>implicit_wait := (if fl = None then implicit_wait d else PyInt 0),
          lookups := lookups d @ [(if fl = None then implicit_wait d else PyInt 0, b, v)]\<rparr>) ls"
proof -
  from assms(1) obtain t r where l: "l = (t, v) # r" and B: "BYS (lower t) = Some b"
    using candidate_Some by blast
  show ?thesis
  proof (cases fl)
    case None
    with assms(2) l B show ?thesis
      by (simp add: find_elements_def)
  next
    case (Some f)
    with assms(2) l B show ?thesis
      by (simp add: find_elements_def implicitly_wait_def)
  qed
qed

lemma loop_step_hit:
  assumes "candidate l = Some (b, v)"
    and "doc (if fl = None then implicit_wait d else PyInt 0) b v \<noteq> []"
  shows "locator_loop doc fl d (l # ls) =
     (Inr (Some (b, v)), (if fl = None then Some (b, v) else fl),
       (d\<lparr>implicit_wait := (if fl = None then implicit_wait d else PyInt 0),
          lookups := lookups d @ [(if fl = None then implicit_wait d else PyInt 0, b, v)]\<rparr>))"
proof -
  from assms(1) obtain t r where l: "l = (t, v) # r" and B: "BYS (lower t) = Some b"
    using candidate_Some by blast
  show ?thesis
  proof (cases fl)
    case None
    with assms(2) l B show ?thesis
      by (simp add: find_elements_def)
  next
    case (Some f)
    with assms(2) l B show ?thesis
      by (simp add: find_elements_def implicitly_wait_def)
  qed
qed

lemma loop_break:
  assumes "k < length ls"
    and "\<forall>i<k. candidate (ls ! i) \<noteq> None \<and> \<not> matches doc (wait_at w i) (ls ! i)"
    and "candidate (ls ! k) = Some (b, v)"
    and "matches doc (wait_at w k) (ls ! k)"
    and "w = (if fl = None then implicit_wait d else PyInt 0)"
  shows "fst (locator_loop doc fl d ls) = Inr (Some (b, v)) \<and>
     (snd (snd (locator_loop doc fl d ls)))\<lparr>implicit_wait := t\<rparr> =
       d\<lparr>implicit_wait := t, lookups := lookups d @ attempts w (take (Suc k) ls)\<rparr>"
  using assms
proof (induction ls arbitrary: k fl d w)
  case Nil
  then show ?case by simp
next
  case (Cons l ls)
  show ?case
  proof (cases k)
    case 0
    with Cons.prems have c: "candidate l = Some (b, v)" and m: "doc w b v \<noteq> []"
      by (auto simp: matches_def wait_at_def)
    from m Cons.prems(5) have "doc (if fl = None then implicit_wait d else PyInt 0) b v \<noteq> []"
      by simp
    from loop_step_hit[where doc=doc and fl=fl and d=d, OF c this] 0 c Cons.prems(5)
    show ?thesis
      by simp
  next
    case (Suc k')
    from Cons.prems(2) Suc obtain b0 v0 where c: "candidate l = Some (b0, v0)"
      and m: "doc w b0 v0 = []"
      by (fastforce simp: matches_def wait_at_def)
    from m Cons.prems(5) have m': "doc (if fl = None then implicit_wait d else PyInt 0) b0 v0 = []"
      by simp
    let ?fl = "if fl = None then Some (b0, v0) else fl"
    let ?d = "d\<lparr>implicit_wait := (if fl = None then implicit_wait d else PyInt 0),
          lookups := lookups d @ [(if fl = None then implicit_wait d else PyInt 0, b0, v0)]\<rparr>"
    have step: "locator_loop doc fl d (l # ls) = locator_loop doc ?fl ?d ls"
      using loop_step_miss[where doc=doc and fl=fl and d=d, OF c m'] .
    have 1: "k' < length ls" using Cons.prems(1) Suc by simp
    have 2: "\<forall>i<k'. candidate (ls ! i) \<noteq> None \<and> \<not> matches doc (wait_at (PyInt 0) i) (ls ! i)"
    proof (intro allI impI)
      fix i assume "i < k'"
      then have "Suc i < k" using Suc by simp
      with Cons.prems(2) have "candidate ((l # ls) ! Suc i) \<noteq> None \<and> \<not> matches doc (wait_at w (Suc i)) ((l # ls) ! Suc i)"
        by blast
      then show "candidate (ls ! i) \<noteq> None \<and> \<not> matches doc (wait_at (PyInt 0) i) (ls ! i)"
        by (simp add: wait_at_def)
    qed
    have 3: "candidate (ls ! k') = Some (b, v)" using Cons.prems(3) Suc by simp
    have 4: "matches doc (wait_at (PyInt 0) k') (ls ! k')"
      using Cons.prems(4) Suc by (simp add: wait_at_def)
    have 5: "PyInt 0 = (if ?fl = None then implicit_wait ?d else PyInt 0)" by simp
    from Cons.IH[OF 1 2 3 4 5] step Suc c Cons.prems(5) show ?thesis
      by simp
  qed
qed

lemma loop_exhaust:
  assumes "\<forall>i<length ls. candidate (ls ! i) \<noteq> None \<and> \<not> matches doc (wait_at w i) (ls ! i)"
    and "w = (if fl = None then implicit_wait d else PyInt 0)"
  shows "fst (locator_loop doc fl d ls) = Inr None \<and>
     fst (snd (locator_loop doc fl d ls)) =
       (if fl = None then (case ls of [] \<Rightarrow> None | l # _ \<Rightarrow> candidate l) else fl) \<and>
     (snd (snd (locator_loop doc fl d ls)))\<lparr>implicit_wait := t\<rparr> =
       d\<lparr>implicit_wait := t, lookups := lookups d @ attempts w ls\<rparr>"
  using assms
proof (induction ls arbitrary: fl d w)
  case Nil
  then show ?case by simp
next
  case (Cons l ls)
  from Cons.prems(1) obtain b0 v0 where c: "candidate l = Some (b0, v0)"
      and m: "doc w b0 v0 = []"
    by (fastforce simp: matches_def wait_at_def)
  from m Cons.prems(2) have m': "doc (if fl = None then implicit_wait d else PyInt 0) b0 v0 = []"
    by simp
  let ?fl = "if fl = None then Some (b0, v0) else fl"
  let ?d = "d\<lparr>implicit_wait := (if fl = None then implicit_wait d else PyInt 0),
        lookups := lookups d @ [(if fl = None then implicit_wait d else PyInt 0, b0, v0)]\<rparr>"
  have step: "locator_loop doc fl d (l # ls) = locator_loop doc ?fl ?d ls"
    using loop_step_miss[where doc=doc and fl=fl and d=d, OF c m'] .
  have 2: "\<forall>i<length ls. candidate (ls ! i) \<noteq> None \<and> \<not> matches doc (wait_at (PyInt 0) i) (ls ! i)"
  proof (intro allI impI)
    fix i assume "i < length ls"
    then have "Suc i < length (l # ls)" by simp
    with Cons.prems(1) have "candidate ((l # ls) ! Suc i) \<noteq> None \<and> \<not> matches doc (wait_at w (Suc i)) ((l # ls) ! Suc i)"
      by blast
    then show "candidate (ls ! i) \<noteq> None \<and> \<not> matches doc (wait_at (PyInt 0) i) (ls ! i)"
      by (simp add: wait_at_def)
  qed
  have 5: "PyInt 0 = (if ?fl = None then implicit_wait ?d else PyInt 0)" by simp
  from Cons.IH[OF 2 5] step c Cons.prems(2) show ?case
    by simp
qed




subsection \<open>The claims\<close>




text \<open>
  C2. Let the candidate at position \<open>k\<close> of the locator list match and let every candidate
  before it be a well-formed locator that does not match, where the first candidate of the
  list is looked up under the wait in force at the start (zero when
  \<^verbatim>\<open>ignore_implicit_wait\<close> is set) and every later one under zero. Then \<^verbatim>\<open>get_locator\<close>
  returns the pair of the candidate at \<open>k\<close>, it has made exactly the lookups of the
  candidates up to \<open>k\<close>, in order and under those waits, and the implicit wait of the
  driver is the ambient timeout.
\<close>

theorem get_locator_first_match:
  assumes "k < length locators"
    and "\<forall>i<k. candidate (locators ! i) \<noteq> None \<and>
           \<not> matches doc (wait_at (first_wait d ign) i) (locators ! i)"
    and "candidate (locators ! k) = Some (b, v)"
    and "matches doc (wait_at (first_wait d ign) k) (locators ! k)"
  shows "get_locator str_by doc st d locators ign =
     (Inr (b, v),
      d\<lparr>implicit_wait := get_timeout st,
        lookups := lookups d @ attempts (first_wait d ign) (take (Suc k) locators)\<rparr>)"
proof -
  let ?d0 = "if ign then implicitly_wait (PyInt 0) d else d"
  have w: "first_wait d ign = (if (None :: (By \<times> string) option) = None then implicit_wait ?d0 else PyInt 0)"
    by (simp add: first_wait_def implicitly_wait_def)
  obtain r fl' d1 where L: "locator_loop doc None ?d0 locators = (r, fl', d1)"
    by (cases "locator_loop doc None ?d0 locators") auto
  from loop_break[where t="get_timeout st", OF assms w] L
  have "r = Inr (Some (b, v))"
    and "d1\<lparr>implicit_wait := get_timeout st\<rparr> =
      ?d0\<lparr>implicit_wait := get_timeout st,
        lookups := lookups ?d0 @ attempts (first_wait d ign) (take (Suc k) locators)\<rparr>"
    by simp_all
  with L show ?thesis
    by (simp add: get_locator_def implicitly_wait_def)
qed

theorem get_locator_first_match_witness:
  "get_locator selenium_by example_doc PyNone example_driver
      [[(''id'', ''missing'')], [(''CSS'', ''.btn'')], [(''name'', ''q'')]] False =
     (Inr (CSS_SELECTOR, ''.btn''),
      example_driver\<lparr>implicit_wait := PyInt 30,
        lookups := [(PyInt 5, ID, ''missing''), (PyInt 0, CSS_SELECTOR, ''.btn'')]\<rparr>)"
  using get_locator_first_match[of 1 "[[(''id'', ''missing'')], [(''CSS'', ''.btn'')], [(''name'', ''q'')]]"
      example_doc example_driver False CSS_SELECTOR "''.btn''" selenium_by PyNone]
  by (simp add: candidate_def matches_def wait_at_def first_wait_def BYS_def lower_def lower_char_def
      example_doc_def example_driver_def get_timeout_def)

text \<open>
  C3. For a non-empty list of well-formed locators none of which matches,
  \<^verbatim>\<open>get_locator\<close> raises \<^verbatim>\<open>NoSuchElementException\<close> with a message that shows the
  strategy and the value of the first candidate, and the implicit wait of the driver has
  been set to the ambient timeout.
\<close>

theorem get_locator_no_match:
  assumes "candidate l = Some (b, v)"
    and "\<forall>i<length (l # ls). candidate ((l # ls) ! i) \<noteq> None \<and>
           \<not> matches doc (wait_at (first_wait d ign) i) ((l # ls) ! i)"
  shows "get_locator str_by doc st d (l # ls) ign =
     (Inl (NoSuchElementException (''Element not found: ('' @ str_by b @ '', '' @ v @ '')'')),
      d\<lparr>implicit_wait := get_timeout st,
        lookups := lookups d @ attempts (first_wait d ign) (l # ls)\<rparr>)"
proof -
  let ?d0 = "if ign then implicitly_wait (PyInt 0) d else d"
  have w: "first_wait d ign = (if (None :: (By \<times> string) option) = None then implicit_wait ?d0 else PyInt 0)"
    by (simp add: first_wait_def implicitly_wait_def)
  obtain r fl' d1 where L: "locator_loop doc None ?d0 (l # ls) = (r, fl', d1)"
    by (cases "locator_loop doc None ?d0 (l # ls)") auto
  from loop_exhaust[where t="get_timeout st", OF assms(2) w] L
  have "r = Inr None" and "fl' = candidate l"
    and "d1\<lparr>implicit_wait := get_timeout st\<rparr> =
      ?d0\<lparr>implicit_wait := get_timeout st,
        lookups := lookups ?d0 @ attempts (first_wait d ign) (l # ls)\<rparr>"
    by simp_all
  with L assms(1) show ?thesis
    by (simp add: get_locator_def implicitly_wait_def format_not_found_def)
qed

theorem get_locator_no_match_witness:
  "get_locator selenium_by example_doc (PyInt 0) example_driver
      [[(''Id'', ''late'')], [(''linktext'', ''Next'')]] True =
     (Inl (NoSuchElementException ''Element not found: (id, late)''),
      example_driver\<lparr>implicit_wait := PyInt 0,
        lookups := [(PyInt 0, ID, ''late''), (PyInt 0, LINK_TEXT, ''Next'')]\<rparr>)"
  using get_locator_no_match[of "[(''Id'', ''late'')]" ID "''late''" "[[(''linktext'', ''Next'')]]"
      example_doc example_driver True selenium_by "PyInt 0"]
  by (simp add: candidate_def matches_def wait_at_def first_wait_def BYS_def lower_def lower_char_def
      example_doc_def example_driver_def get_timeout_def selenium_by_def All_less_Suc)

text \<open>
  C9. For the empty locator list \<^verbatim>\<open>get_locator\<close> does not raise
  \<^verbatim>\<open>NoSuchElementException\<close>: no first candidate was recorded, so formatting the message
  fails and the call raises \<^verbatim>\<open>TypeError\<close>, after the implicit wait was set to the ambient
  timeout.
\<close>

theorem get_locator_empty:
  "get_locator str_by doc st d [] ign =
     (Inl (TypeError ''not enough arguments for format string''),
      d\<lparr>implicit_wait := get_timeout st\<rparr>)"
  by (simp add: get_locator_def implicitly_wait_def format_not_found_def)

theorem get_locator_empty_witness:
  "get_locator selenium_by example_doc (PyList []) example_driver [] False =
     (Inl (TypeError ''not enough arguments for format string''),
      example_driver\<lparr>implicit_wait := PyInt 30\<rparr>)"
  using get_locator_empty[of selenium_by example_doc "PyList []" example_driver False]
  by (simp add: get_timeout_def)

section \<open>Properties of the string and integer operations\<close>

lemma lower_char_hash: "lower_char c = CHR ''#'' \<longleftrightarrow> c = CHR ''#''"
  by (simp add: lower_char_def)

lemma lower_char_o: "lower_char c = CHR ''o'' \<longleftrightarrow> c = CHR ''o'' \<or> c = CHR ''O''"
  by (auto simp: lower_char_def)

lemma lower_char_k: "lower_char c = CHR ''k'' \<longleftrightarrow> c = CHR ''k'' \<or> c = CHR ''K''"
  by (auto simp: lower_char_def)

lemma lower_ok:
  "lower v = ''#ok'' \<longleftrightarrow> v \<in> {''#ok'', ''#oK'', ''#Ok'', ''#OK''}"
proof -
  have "lower v = ''#ok'' \<longleftrightarrow>
    (\<exists>a b c. v = [a, b, c] \<and> lower_char a = CHR ''#'' \<and> lower_char b = CHR ''o'' \<and> lower_char c = CHR ''k'')"
    by (auto simp: lower_def map_eq_Cons_conv)
  then show ?thesis
    by (auto simp: lower_char_hash lower_char_o lower_char_k)
qed

lemma digit_char_val: "m < 10 \<Longrightarrow> digit_val (''0123456789'' ! m) = Some m"
proof -
  assume "m < 10"
  then have "m \<in> {0, 1, 2, 3, 4, 5, 6, 7, 8, 9}" by auto
  then show ?thesis
    by (auto simp: digit_val_def)
qed

lemma digit_val_not_space: "digit_val c = Some v \<Longrightarrow> \<not> is_space c"
  by (auto simp: digit_val_def is_space_def split: if_splits)

lemma digit_val_not_sign:
  "digit_val c = Some v \<Longrightarrow> c \<noteq> CHR ''-'' \<and> c \<noteq> CHR ''+'' \<and> c \<noteq> CHR ''_'' \<and> c \<noteq> CHR ''=''"
  by (auto simp: digit_val_def split: if_splits)

lemma digits_from_all:
  "list_all (\<lambda>c. digit_val c \<noteq> None) cs \<Longrightarrow>
     digits_from acc cs = Some (foldl (\<lambda>a c. a * 10 + digit_of c) acc cs)"
proof (induction acc cs rule: digits_from.induct)
  case (1 acc)
  then show ?case by simp
next
  case (2 acc c)
  then show ?case by (auto simp: digit_of_def)
next
  case (3 acc c d ds)
  from "3.prems" obtain v where v: "digit_val c = Some v" by auto
  then have ne: "c \<noteq> CHR ''_''" using digit_val_not_sign by blast
  from "3.prems" have "list_all (\<lambda>c. digit_val c \<noteq> None) (d # ds)" by simp
  with "3.IH"(2)[OF ne v] v ne show ?case
    by (simp add: digit_of_def)
qed

lemma str_nat_digits: "list_all (\<lambda>c. digit_val c \<noteq> None) (str_nat n)"
proof (induction n rule: str_nat.induct)
  case (1 n)
  show ?case
  proof (cases "n < 10")
    case True
    then show ?thesis
      by (subst str_nat.simps) (simp add: digit_char_val)
  next
    case False
    have "n mod 10 < 10" by simp
    with 1 False show ?thesis
      by (subst str_nat.simps) (simp add: digit_char_val)
  qed
qed

lemma str_nat_nonempty: "str_nat n \<noteq> []"
  by (subst str_nat.simps) simp

lemma str_nat_value: "foldl (\<lambda>a c. a * 10 + digit_of c) 0 (str_nat n) = n"
proof (induction n rule: str_nat.induct)
  case (1 n)
  show ?case
  proof (cases "n < 10")
    case True
    then show ?thesis
      by (subst str_nat.simps) (simp add: digit_of_def digit_char_val)
  next
    case False
    have "n mod 10 < 10" by simp
    with 1 False show ?thesis
      by (subst str_nat.simps) (simp add: digit_of_def digit_char_val)
  qed
qed

lemma digits_no_underscore:
  "list_all (\<lambda>c. digit_val c \<noteq> None) s \<Longrightarrow> filter (\<lambda>c. c \<noteq> CHR ''_'') s = s"
  by (induction s) (auto simp: digit_val_def)

lemma digits_all:
  assumes "s \<noteq> []" and "list_all (\<lambda>c. digit_val c \<noteq> None) s"
    and "length s \<le> max_str_digits"
  shows "digits s = Some (foldl (\<lambda>a c. a * 10 + digit_of c) 0 s)"
proof -
  from assms obtain c cs where s: "s = c # cs" by (cases s) auto
  with assms(2) obtain v where v: "digit_val c = Some v"
    and cs: "list_all (\<lambda>c. digit_val c \<noteq> None) cs" by auto
  show ?thesis
    using s v digits_from_all[OF cs, of v] digits_no_underscore[OF assms(2)] assms(3)
    by (simp add: digits_def digit_of_def)
qed

lemma strip_digits:
  assumes "s \<noteq> []" and "list_all (\<lambda>c. digit_val c \<noteq> None) s"
  shows "strip s = s"
proof -
  from assms have h: "\<not> is_space (hd s)"
    using digit_val_not_space by (cases s) auto
  from assms have "last s \<in> set s" by simp
  with assms(2) have l: "\<not> is_space (last s)"
    using digit_val_not_space by (auto simp: list_all_iff)
  from assms(1) h have 1: "dropWhile is_space s = s"
    by (cases s) auto
  from assms(1) l have 2: "dropWhile is_space (rev s) = rev s"
    by (cases s rule: rev_cases) auto
  show ?thesis
    by (simp add: strip_def 1 2)
qed

lemma py_int_digits:
  assumes "s \<noteq> []" and "list_all (\<lambda>c. digit_val c \<noteq> None) s"
    and "length s \<le> max_str_digits"
  shows "py_int s = Some (int (foldl (\<lambda>a c. a * 10 + digit_of c) 0 s))"
proof -
  from assms obtain c cs where s: "s = c # cs" by (cases s) auto
  with assms(2) obtain v where v: "digit_val c = Some v" by auto
  then have "c \<noteq> CHR ''-''" "c \<noteq> CHR ''+''" using digit_val_not_sign by blast+
  with s show ?thesis
    using strip_digits[OF assms(1,2)] digits_all[OF assms]
    by (simp add: py_int_def)
qed

lemma py_int_str_nat:
  "length (str_nat n) \<le> max_str_digits \<Longrightarrow> py_int (str_nat n) = Some (int n)"
  using py_int_digits[OF str_nat_nonempty str_nat_digits, of n]
  by (simp add: str_nat_value)

lemma isdigit_str_nat: "isdigit (str_nat n)"
  using str_nat_digits[of n] by (simp add: isdigit_def str_nat_nonempty)

lemma split_no_sep: "sep \<notin> set s \<Longrightarrow> split sep s = [s]"
  by (induction s) auto

lemma split_str_nat: "split CHR ''='' (str_nat n) = [str_nat n]"
proof -
  have "CHR ''='' \<notin> set (str_nat n)"
    using str_nat_digits[of n] digit_val_not_sign
    by (fastforce simp: list_all_iff)
  then show ?thesis by (rule split_no_sep)
qed

lemma py_index_last: "xs \<noteq> [] \<Longrightarrow> py_index xs (- 1) = Inr (last xs)"
  by (cases xs rule: rev_cases) (auto simp: py_index_def nth_append)

lemma py_index_beyond: "int (length xs) \<le> i \<Longrightarrow> py_index xs i = Inl IndexError"
  by (auto simp: py_index_def)

section \<open>Properties of dialog interception\<close>

text \<open>
  C6. \<^verbatim>\<open>dialogs_replace\<close> is idempotent. When the sentinel \<^verbatim>\<open>window.__webdriverAlerts\<close>
  is set, a call leaves the whole session unchanged: the queues, the pending answers and
  the saved original functions are not initialised again. After any call the sentinel is
  set, so a second call changes nothing.
\<close>

theorem dialogs_replace_idempotent:
  "(js_truthy (webdriverAlerts (page d)) \<longrightarrow> dialogs_replace d = d) \<and>
   js_truthy (webdriverAlerts (page (dialogs_replace d))) \<and>
   dialogs_replace (dialogs_replace d) = dialogs_replace d"
  by (simp add: dialogs_replace_def Let_def)

theorem dialogs_replace_idempotent_witness:
  "js_truthy (webdriverAlerts (page (dialogs_replace example_driver))) \<and>
   dialogs_replace (dialogs_replace example_driver) = dialogs_replace example_driver \<and>
   dialogs_replace example_driver \<noteq> example_driver"
  using dialogs_replace_idempotent[of "dialogs_replace example_driver"]
    dialogs_replace_idempotent[of example_driver]
  by (simp add: dialogs_replace_def example_driver_def fresh_page_def Let_def)

text \<open>
  C4, as the claim states it: after \<^verbatim>\<open>dialogs_answer_on_next_alert("#ok")\<close> the next
  \<^verbatim>\<open>window.alert\<close> would reach the real dialog. On the concrete session, with the
  overrides installed, no real dialog is shown for that alert.
\<close>

theorem next_alert_not_shown_counterexample:
  "map_option (map_sum id native_dialogs)
     (window_alert 2 (JStr ''hi'')
        (dialogs_answer_on_next_alert ''#ok'' (dialogs_replace example_driver))) =
   Some (Inr [])"
  by (simp add: window_alert_def dialogs_answer_on_next_alert_def dialogs_replace_def
      example_driver_def fresh_page_def alert_record_def lower_def lower_char_def Let_def
      numeral_2_eq_2)

text \<open>
  C4, amended. With the overrides installed and the acknowledgment set by
  \<^verbatim>\<open>dialogs_answer_on_next_alert\<close> with a value that is \<^verbatim>\<open>#ok\<close> up to case, the next
  \<^verbatim>\<open>window.alert\<close> returns without calling the original alert: the message is appended
  to the queue, the pending acknowledgment is reset to \<^verbatim>\<open>null\<close> and nothing else
  changes. The alert after that calls the original alert, which shows the real dialog, and
  its message is appended too.
\<close>

theorem alert_after_ok:
  assumes "lower val = ''#ok''"
    and "alert (page d) = Webdriver"
    and "webdriverAlerts (page d) = JArray q"
    and "webdriverOriginalAlert (page d) = Some Native"
  shows "window_alert (Suc n) msg (dialogs_answer_on_next_alert val d) =
       Some (Inr (d\<lparr>page := (page d)\<lparr>webdriverNextAlert := JNull,
                                      webdriverAlerts := JArray (q @ [msg])\<rparr>\<rparr>)) \<and>
     window_alert (Suc (Suc n')) msg'
         (d\<lparr>page := (page d)\<lparr>webdriverNextAlert := JNull,
                               webdriverAlerts := JArray (q @ [msg])\<rparr>\<rparr>) =
       Some (Inr (d\<lparr>page := (page d)\<lparr>webdriverNextAlert := JNull,
                                      webdriverAlerts := JArray (q @ [msg, msg'])\<rparr>,
                    native_dialogs := native_dialogs d @ [msg']\<rparr>))"
  using assms
  by (simp add: window_alert_def dialogs_answer_on_next_alert_def alert_record_def)

theorem alert_after_ok_witness:
  "window_alert 1 (JStr ''hi'')
       (dialogs_answer_on_next_alert ''#OK'' (dialogs_replace example_driver)) =
     Some (Inr (example_driver\<lparr>page := (page (dialogs_replace example_driver))
                  \<lparr>webdriverNextAlert := JNull, webdriverAlerts := JArray [JStr ''hi'']\<rparr>\<rparr>))"
  using alert_after_ok[of "''#OK''" "dialogs_replace example_driver" "[]" 0 "JStr ''hi''" 0 "JStr ''ho''"]
  by (simp add: dialogs_replace_def example_driver_def fresh_page_def lower_def lower_char_def Let_def)

text \<open>
  C10. \<^verbatim>\<open>dialogs_answer_on_next_confirm\<close> sets the pending confirm answer to \<^verbatim>\<open>true\<close>
  when its argument is \<^verbatim>\<open>#ok\<close> up to the case of its letters, and to \<^verbatim>\<open>false\<close> for
  every other argument; nothing else changes.
\<close>

theorem dialogs_answer_on_next_confirm_sets:
  "dialogs_answer_on_next_confirm val d =
     d\<lparr>page := (page d)\<lparr>webdriverNextConfirm :=
        JBool (val \<in> {''#ok'', ''#oK'', ''#Ok'', ''#OK''})\<rparr>\<rparr>"
  by (simp add: dialogs_answer_on_next_confirm_def assign_next_confirm_def lower_ok del: insert_iff)

theorem dialogs_answer_on_next_confirm_witness:
  "webdriverNextConfirm (page (dialogs_answer_on_next_confirm ''#Ok'' example_driver)) = JBool True \<and>
   webdriverNextConfirm (page (dialogs_answer_on_next_confirm ''#cancel'' example_driver)) = JBool False \<and>
   webdriverNextConfirm (page (dialogs_answer_on_next_confirm ''yes'' example_driver)) = JBool False"
  using dialogs_answer_on_next_confirm_sets[of "''#Ok''" example_driver]
    dialogs_answer_on_next_confirm_sets[of "''#cancel''" example_driver]
    dialogs_answer_on_next_confirm_sets[of "''yes''" example_driver]
  by simp

section \<open>Properties of frame navigation\<close>

lemma split_nonempty: "split sep s \<noteq> []"
  by (induction s) (auto split: list.splits)

lemma split_hd: "hd (split sep s) = takeWhile (\<lambda>c. c \<noteq> sep) s"
  by (induction s) (auto split: list.splits simp: split_nonempty)

lemma split_other: "c \<noteq> sep \<Longrightarrow> split sep (c # cs) = (c # hd (split sep cs)) # tl (split sep cs)"
  using split_nonempty[of sep cs] by (cases "split sep cs") auto

lemma startswith_index_eq: "startswith s ''index='' \<longleftrightarrow> s = ''index='' @ drop 6 s"
proof
  have len: "length ''index='' = 6" by simp
  assume "startswith s ''index=''"
  then have "take 6 s = ''index=''" unfolding startswith_def len .
  then have "take 6 s @ drop 6 s = ''index='' @ drop 6 s" by (simp only:)
  then show "s = ''index='' @ drop 6 s" by (simp only: append_take_drop_id)
next
  assume a: "s = ''index='' @ drop 6 s"
  have "startswith (''index='' @ drop 6 s) ''index=''" by (simp add: startswith_def)
  with a show "startswith s ''index=''" by simp
qed

lemma split_index: "split CHR ''='' (''index='' @ t) = ''index'' # split CHR ''='' t"
  by (simp add: split_other)

lemma index_piece:
  assumes "startswith s ''index=''"
  shows "py_index (split CHR ''='' s) 1 = Inr (index_text s)"
proof -
  from assms have s: "s = ''index='' @ drop 6 s"
    by (simp add: startswith_index_eq)
  have "py_index (split CHR ''='' (''index='' @ drop 6 s)) 1 = Inr (hd (split CHR ''='' (drop 6 s)))"
    using split_nonempty[of "CHR ''=''" "drop 6 s"]
    by (cases "split CHR ''='' (drop 6 s)") (simp_all add: split_index py_index_def del: append.simps)
  with s show ?thesis
    by (simp add: index_text_def split_hd)
qed

lemma index_text_str_nat: "index_text (''index='' @ str_nat n) = str_nat n"
proof -
  have "CHR ''='' \<notin> set (str_nat n)"
    using str_nat_digits[of n] digit_val_not_sign
    by (fastforce simp: list_all_iff)
  then have "takeWhile (\<lambda>c. c \<noteq> CHR ''='') (str_nat n) = str_nat n"
    by (auto simp: takeWhile_eq_all_conv)
  then show ?thesis
    by (simp add: index_text_def)
qed

lemma FrameManager_switch_index:
  assumes "startswith s ''index=''"
  shows "FrameManager_switch (Some s) d =
     (case py_int (index_text s) of
        None \<Rightarrow> Inl (ValueError (index_text s))
      | Some n \<Rightarrow>
          (case focused (top d) (frame_path d) of
             None \<Rightarrow> Inl (NoSuchFrameException (''Invalid Frame ID: '' @ s))
           | Some f \<Rightarrow>
               if 0 \<le> n \<and> nat n < length (subframes f)
               then Inr (d\<lparr>frame_path := frame_path d @ [nat n]\<rparr>)
               else Inl (NoSuchFrameException (''Invalid Frame ID: '' @ s))))"
proof -
  from assms obtain t where "s = ''index='' @ t"
    using startswith_index_eq by blast
  then have ne: "s \<noteq> []" "s \<noteq> ''relative=top''" "s \<noteq> ''relative=parent''"
    by auto
  show ?thesis
    unfolding FrameManager_switch_def
    using assms ne
    by (simp add: index_piece switch_to_frame_index_def py_str_def
        split: option.splits)
qed

lemma FrameManager_switch_decimal:
  assumes "length (str_nat n) \<le> max_str_digits"
  shows "FrameManager_switch (Some (''index='' @ str_nat n)) d =
     (case focused (top d) (frame_path d) of
        None \<Rightarrow> Inl (NoSuchFrameException (''Invalid Frame ID: index='' @ str_nat n))
      | Some f \<Rightarrow>
          if n < length (subframes f) then Inr (d\<lparr>frame_path := frame_path d @ [n]\<rparr>)
          else Inl (NoSuchFrameException (''Invalid Frame ID: index='' @ str_nat n)))"
proof -
  have st: "startswith (''index='' @ str_nat n) ''index=''"
    by (simp add: startswith_def)
  have msg: "''Invalid Frame ID: '' @ ''index='' @ str_nat n = ''Invalid Frame ID: index='' @ str_nat n"
    by simp
  show ?thesis
    by (simp add: FrameManager_switch_index[OF st] index_text_str_nat py_int_str_nat[OF assms] msg
        del: append.simps split: option.splits)
qed

lemma FrameManager_switch_name:
  assumes "s \<noteq> []" and "s \<noteq> ''relative=top''" and "\<not> startswith s ''index=''"
    and "s \<noteq> ''relative=parent''"
  shows "FrameManager_switch (Some s) d =
     (case focused (top d) (frame_path d) of
        None \<Rightarrow> Inl (NoSuchFrameException (''Invalid Frame ID: '' @ s))
      | Some f \<Rightarrow>
          (case frame_position s (subframes f) of
             None \<Rightarrow> Inl (NoSuchFrameException (''Invalid Frame ID: '' @ s))
           | Some i \<Rightarrow> Inr (d\<lparr>frame_path := frame_path d @ [i]\<rparr>)))"
  using assms
  by (simp add: FrameManager_switch_def switch_to_frame_name_def py_str_def split: option.splits)

lemma FrameManager_switch_top:
  "frame_name = None \<or> frame_name = Some [] \<or> frame_name = Some ''relative=top'' \<Longrightarrow>
   FrameManager_switch frame_name d = Inr (d\<lparr>frame_path := []\<rparr>)"
  by (auto simp: FrameManager_switch_def switch_to_default_content_def)

lemma FrameManager_switch_parent:
  "FrameManager_switch (Some ''relative=parent'') d = Inr (d\<lparr>frame_path := butlast (frame_path d)\<rparr>)"
  by (simp add: FrameManager_switch_def switch_to_parent_frame_def startswith_def)

lemma FrameManager_switch_reraise:
  "FrameManager_switch frame_name d = Inl (NoSuchFrameException m) \<Longrightarrow>
   m = ''Invalid Frame ID: '' @ py_str frame_name"
  by (simp add: FrameManager_switch_def Let_def split: sum.splits error.splits)

text \<open>
  C7, as the claim states it: a string that is not \<^verbatim>\<open>index=\<close> with a number would be
  passed to the driver as a frame name. On a page whose one frame is named
  \<^verbatim>\<open>index=main\<close> the driver finds the frame under that name, but
  \<^verbatim>\<open>FrameManager.switch\<close> raises the \<^verbatim>\<open>ValueError\<close> of \<^verbatim>\<open>int("main")\<close> and the driver is
  not asked.
\<close>

theorem index_name_counterexample:
  "switch_to_frame_name ''index=main''
       (example_driver\<lparr>top := Frame ''top'' [Frame ''index=main'' []], frame_path := []\<rparr>) =
     Inr (example_driver\<lparr>top := Frame ''top'' [Frame ''index=main'' []], frame_path := [0]\<rparr>) \<and>
   FrameManager_switch (Some ''index=main'')
       (example_driver\<lparr>top := Frame ''top'' [Frame ''index=main'' []], frame_path := []\<rparr>) =
     Inl (ValueError ''main'')"
  by (simp add: FrameManager_switch_def switch_to_frame_name_def startswith_def py_index_def
      py_int_def strip_def is_space_def digits_def digit_val_def max_str_digits_def
      example_driver_def)

text \<open>
  C7, amended. \<^verbatim>\<open>FrameManager.switch\<close> dispatches on its argument. Without an argument,
  with the empty string or with \<^verbatim>\<open>relative=top\<close> the focus goes to the top-level
  document. An argument that begins with \<^verbatim>\<open>index=\<close> is never given to the driver as a
  name: the text between the first \<^verbatim>\<open>=\<close> and the next is read by \<^verbatim>\<open>int\<close>; when that
  fails the \<^verbatim>\<open>ValueError\<close> leaves the call uncaught, and when it gives \<open>n\<close> the focus goes
  to the child frame at position \<open>n\<close> of the focused frame, so with \<^verbatim>\<open>index=\<close> followed by
  the decimal text of \<open>n\<close> (of at most 4300 digits) to the child at position \<open>n\<close>. With
  \<^verbatim>\<open>relative=parent\<close> the focus goes one level up. Any other string is given to the
  driver as the name of a child frame. Whenever the call ends in
  \<^verbatim>\<open>NoSuchFrameException\<close>, the message is \<^verbatim>\<open>Invalid Frame ID:\<close> followed by the
  argument.
\<close>

theorem FrameManager_switch_dispatch:
  "(frame_name = None \<or> frame_name = Some [] \<or> frame_name = Some ''relative=top'' \<longrightarrow>
      FrameManager_switch frame_name d = Inr (d\<lparr>frame_path := []\<rparr>)) \<and>
   (startswith s ''index='' \<longrightarrow>
      FrameManager_switch (Some s) d =
        (case py_int (index_text s) of
           None \<Rightarrow> Inl (ValueError (index_text s))
         | Some i \<Rightarrow>
             (case focused (top d) (frame_path d) of
                None \<Rightarrow> Inl (NoSuchFrameException (''Invalid Frame ID: '' @ s))
              | Some f \<Rightarrow>
                  if 0 \<le> i \<and> nat i < length (subframes f)
                  then Inr (d\<lparr>frame_path := frame_path d @ [nat i]\<rparr>)
                  else Inl (NoSuchFrameException (''Invalid Frame ID: '' @ s))))) \<and>
   (length (str_nat n) \<le> max_str_digits \<longrightarrow>
      FrameManager_switch (Some (''index='' @ str_nat n)) d =
        (case focused (top d) (frame_path d) of
           None \<Rightarrow> Inl (NoSuchFrameException (''Invalid Frame ID: index='' @ str_nat n))
         | Some f \<Rightarrow>
             if n < length (subframes f) then Inr (d\<lparr>frame_path := frame_path d @ [n]\<rparr>)
             else Inl (NoSuchFrameException (''Invalid Frame ID: index='' @ str_nat n)))) \<and>
   FrameManager_switch (Some ''relative=parent'') d =
     Inr (d\<lparr>frame_path := butlast (frame_path d)\<rparr>) \<and>
   (s \<noteq> [] \<and> s \<noteq> ''relative=top'' \<and> \<not> startswith s ''index='' \<and> s \<noteq> ''relative=parent'' \<longrightarrow>
      FrameManager_switch (Some s) d =
        (case focused (top d) (frame_path d) of
           None \<Rightarrow> Inl (NoSuchFrameException (''Invalid Frame ID: '' @ s))
         | Some f \<Rightarrow>
             (case frame_position s (subframes f) of
                None \<Rightarrow> Inl (NoSuchFrameException (''Invalid Frame ID: '' @ s))
              | Some i \<Rightarrow> Inr (d\<lparr>frame_path := frame_path d @ [i]\<rparr>)))) \<and>
   (\<forall>m. FrameManager_switch frame_name d = Inl (NoSuchFrameException m) \<longrightarrow>
      m = ''Invalid Frame ID: '' @ py_str frame_name)"
proof (intro conjI impI allI)
  assume "frame_name = None \<or> frame_name = Some [] \<or> frame_name = Some ''relative=top''"
  then show "FrameManager_switch frame_name d = Inr (d\<lparr>frame_path := []\<rparr>)"
    by (rule FrameManager_switch_top)
next
  assume "startswith s ''index=''"
  then show "FrameManager_switch (Some s) d =
        (case py_int (index_text s) of
           None \<Rightarrow> Inl (ValueError (index_text s))
         | Some i \<Rightarrow>
             (case focused (top d) (frame_path d) of
                None \<Rightarrow> Inl (NoSuchFrameException (''Invalid Frame ID: '' @ s))
              | Some f \<Rightarrow>
                  if 0 \<le> i \<and> nat i < length (subframes f)
                  then Inr (d\<lparr>frame_path := frame_path d @ [nat i]\<rparr>)
                  else Inl (NoSuchFrameException (''Invalid Frame ID: '' @ s))))"
    by (rule FrameManager_switch_index)
next
  assume "length (str_nat n) \<le> max_str_digits"
  then show "FrameManager_switch (Some (''index='' @ str_nat n)) d =
     (case focused (top d) (frame_path d) of
        None \<Rightarrow> Inl (NoSuchFrameException (''Invalid Frame ID: index='' @ str_nat n))
      | Some f \<Rightarrow>
          if n < length (subframes f) then Inr (d\<lparr>frame_path := frame_path d @ [n]\<rparr>)
          else Inl (NoSuchFrameException (''Invalid Frame ID: index='' @ str_nat n)))"
    by (rule FrameManager_switch_decimal)
next
  show "FrameManager_switch (Some ''relative=parent'') d =
     Inr (d\<lparr>frame_path := butlast (frame_path d)\<rparr>)"
    by (rule FrameManager_switch_parent)
next
  assume "s \<noteq> [] \<and> s \<noteq> ''relative=top'' \<and> \<not> startswith s ''index='' \<and> s \<noteq> ''relative=parent''"
  then show "FrameManager_switch (Some s) d =
        (case focused (top d) (frame_path d) of
           None \<Rightarrow> Inl (NoSuchFrameException (''Invalid Frame ID: '' @ s))
         | Some f \<Rightarrow>
             (case frame_position s (subframes f) of
                None \<Rightarrow> Inl (NoSuchFrameException (''Invalid Frame ID: '' @ s))
              | Some i \<Rightarrow> Inr (d\<lparr>frame_path := frame_path d @ [i]\<rparr>)))"
    using FrameManager_switch_name by blast
next
  fix m
  assume "FrameManager_switch frame_name d = Inl (NoSuchFrameException m)"
  then show "m = ''Invalid Frame ID: '' @ py_str frame_name"
    by (rule FrameManager_switch_reraise)
qed

theorem FrameManager_switch_dispatch_witness:
  "FrameManager_switch (Some ''relative=top'') example_driver =
     Inr (example_driver\<lparr>frame_path := []\<rparr>) \<and>
   FrameManager_switch (Some ''index=1'') (example_driver\<lparr>frame_path := []\<rparr>) =
     Inr (example_driver\<lparr>frame_path := [1]\<rparr>) \<and>
   FrameManager_switch (Some ''index=1'') example_driver =
     Inl (NoSuchFrameException ''Invalid Frame ID: index=1'') \<and>
   FrameManager_switch (Some ''index= 0 '') example_driver =
     Inr (example_driver\<lparr>frame_path := [0, 0]\<rparr>) \<and>
   FrameManager_switch (Some ''index=main'') example_driver = Inl (ValueError ''main'') \<and>
   FrameManager_switch (Some ''relative=parent'') example_driver =
     Inr (example_driver\<lparr>frame_path := []\<rparr>) \<and>
   FrameManager_switch (Some ''inner'') example_driver =
     Inr (example_driver\<lparr>frame_path := [0, 0]\<rparr>) \<and>
   FrameManager_switch (Some ''nope'') example_driver =
     Inl (NoSuchFrameException ''Invalid Frame ID: nope'')"
proof -
  have "str_nat 1 = ''1''"
    by (subst str_nat.simps) simp
  then have one: "str_nat (Suc 0) = ''1''"
    by simp
  have len: "length (str_nat 1) \<le> max_str_digits"
    by (simp add: one max_str_digits_def)
  have a: "Some ''relative=top'' = None \<or> Some ''relative=top'' = Some [] \<or>
      Some ''relative=top'' = Some ''relative=top''"
    by simp
  have b: "''inner'' \<noteq> [] \<and> ''inner'' \<noteq> ''relative=top'' \<and> \<not> startswith ''inner'' ''index='' \<and>
      ''inner'' \<noteq> ''relative=parent''"
    by (simp add: startswith_def)
  have c: "''nope'' \<noteq> [] \<and> ''nope'' \<noteq> ''relative=top'' \<and> \<not> startswith ''nope'' ''index='' \<and>
      ''nope'' \<noteq> ''relative=parent''"
    by (simp add: startswith_def)
  have e: "startswith ''index= 0 '' ''index=''" "startswith ''index=main'' ''index=''"
    by (simp_all add: startswith_def)
  have p0: "index_text ''index= 0 '' = '' 0 ''" "py_int '' 0 '' = Some 0"
    by (simp_all add: index_text_def py_int_def strip_def is_space_def digits_def digit_val_def
        max_str_digits_def)
  have pm: "index_text ''index=main'' = ''main''" "py_int ''main'' = None"
    by (simp_all add: index_text_def py_int_def strip_def is_space_def digits_def digit_val_def
        max_str_digits_def)
  note T1 = FrameManager_switch_dispatch[where frame_name="Some ''relative=top''"
      and d=example_driver and s="''inner''" and n=1]
  note T2 = FrameManager_switch_dispatch[where frame_name=None
      and d="example_driver\<lparr>frame_path := []\<rparr>" and s="''nope''" and n=1]
  note T3 = FrameManager_switch_dispatch[where frame_name=None
      and d=example_driver and s="''nope''" and n=1]
  note T4 = FrameManager_switch_dispatch[where frame_name=None
      and d=example_driver and s="''index= 0 ''" and n=1]
  note T5 = FrameManager_switch_dispatch[where frame_name=None
      and d=example_driver and s="''index=main''" and n=1]
  from T1 a have 1: "FrameManager_switch (Some ''relative=top'') example_driver =
     Inr (example_driver\<lparr>frame_path := []\<rparr>)"
    by blast
  from T2 len have "FrameManager_switch (Some (''index='' @ str_nat 1)) (example_driver\<lparr>frame_path := []\<rparr>) =
     (case focused (top (example_driver\<lparr>frame_path := []\<rparr>)) (frame_path (example_driver\<lparr>frame_path := []\<rparr>)) of
        None \<Rightarrow> Inl (NoSuchFrameException (''Invalid Frame ID: index='' @ str_nat 1))
      | Some f \<Rightarrow>
          if 1 < length (subframes f)
          then Inr (example_driver\<lparr>frame_path := []\<rparr>\<lparr>frame_path := frame_path (example_driver\<lparr>frame_path := []\<rparr>) @ [1]\<rparr>)
          else Inl (NoSuchFrameException (''Invalid Frame ID: index='' @ str_nat 1)))"
    by blast
  then have 2: "FrameManager_switch (Some ''index=1'') (example_driver\<lparr>frame_path := []\<rparr>) =
     Inr (example_driver\<lparr>frame_path := [1]\<rparr>)"
    by (simp add: one example_driver_def)
  from T3 len have "FrameManager_switch (Some (''index='' @ str_nat 1)) example_driver =
     (case focused (top example_driver) (frame_path example_driver) of
        None \<Rightarrow> Inl (NoSuchFrameException (''Invalid Frame ID: index='' @ str_nat 1))
      | Some f \<Rightarrow>
          if 1 < length (subframes f)
          then Inr (example_driver\<lparr>frame_path := frame_path example_driver @ [1]\<rparr>)
          else Inl (NoSuchFrameException (''Invalid Frame ID: index='' @ str_nat 1)))"
    by blast
  then have 3: "FrameManager_switch (Some ''index=1'') example_driver =
     Inl (NoSuchFrameException ''Invalid Frame ID: index=1'')"
    by (simp add: one example_driver_def)
  from T4 e(1) have "FrameManager_switch (Some ''index= 0 '') example_driver =
        (case py_int (index_text ''index= 0 '') of
           None \<Rightarrow> Inl (ValueError (index_text ''index= 0 ''))
         | Some i \<Rightarrow>
             (case focused (top example_driver) (frame_path example_driver) of
                None \<Rightarrow> Inl (NoSuchFrameException (''Invalid Frame ID: '' @ ''index= 0 ''))
              | Some f \<Rightarrow>
                  if 0 \<le> i \<and> nat i < length (subframes f)
                  then Inr (example_driver\<lparr>frame_path := frame_path example_driver @ [nat i]\<rparr>)
                  else Inl (NoSuchFrameException (''Invalid Frame ID: '' @ ''index= 0 ''))))"
    by blast
  then have 4: "FrameManager_switch (Some ''index= 0 '') example_driver =
     Inr (example_driver\<lparr>frame_path := [0, 0]\<rparr>)"
    by (simp add: p0 example_driver_def)
  from T5 e(2) have "FrameManager_switch (Some ''index=main'') example_driver =
        (case py_int (index_text ''index=main'') of
           None \<Rightarrow> Inl (ValueError (index_text ''index=main''))
         | Some i \<Rightarrow>
             (case focused (top example_driver) (frame_path example_driver) of
                None \<Rightarrow> Inl (NoSuchFrameException (''Invalid Frame ID: '' @ ''index=main''))
              | Some f \<Rightarrow>
                  if 0 \<le> i \<and> nat i < length (subframes f)
                  then Inr (example_driver\<lparr>frame_path := frame_path example_driver @ [nat i]\<rparr>)
                  else Inl (NoSuchFrameException (''Invalid Frame ID: '' @ ''index=main''))))"
    by blast
  then have 5: "FrameManager_switch (Some ''index=main'') example_driver = Inl (ValueError ''main'')"
    by (simp add: pm)
  from T1 have "FrameManager_switch (Some ''relative=parent'') example_driver =
     Inr (example_driver\<lparr>frame_path := butlast (frame_path example_driver)\<rparr>)"
    by blast
  then have 6: "FrameManager_switch (Some ''relative=parent'') example_driver =
     Inr (example_driver\<lparr>frame_path := []\<rparr>)"
    by (simp add: example_driver_def)
  from T1 b have "FrameManager_switch (Some ''inner'') example_driver =
        (case focused (top example_driver) (frame_path example_driver) of
           None \<Rightarrow> Inl (NoSuchFrameException (''Invalid Frame ID: '' @ ''inner''))
         | Some f \<Rightarrow>
             (case frame_position ''inner'' (subframes f) of
                None \<Rightarrow> Inl (NoSuchFrameException (''Invalid Frame ID: '' @ ''inner''))
              | Some i \<Rightarrow> Inr (example_driver\<lparr>frame_path := frame_path example_driver @ [i]\<rparr>)))"
    by blast
  then have 7: "FrameManager_switch (Some ''inner'') example_driver =
     Inr (example_driver\<lparr>frame_path := [0, 0]\<rparr>)"
    by (simp add: example_driver_def)
  from T3 c have "FrameManager_switch (Some ''nope'') example_driver =
        (case focused (top example_driver) (frame_path example_driver) of
           None \<Rightarrow> Inl (NoSuchFrameException (''Invalid Frame ID: '' @ ''nope''))
         | Some f \<Rightarrow>
             (case frame_position ''nope'' (subframes f) of
                None \<Rightarrow> Inl (NoSuchFrameException (''Invalid Frame ID: '' @ ''nope''))
              | Some i \<Rightarrow> Inr (example_driver\<lparr>frame_path := frame_path example_driver @ [i]\<rparr>)))"
    by blast
  then have 8: "FrameManager_switch (Some ''nope'') example_driver =
     Inl (NoSuchFrameException ''Invalid Frame ID: nope'')"
    by (simp add: example_driver_def)
  from 1 2 3 4 5 6 7 8 show ?thesis
    by (simp only: simp_thms)
qed

section \<open>Properties of window navigation\<close>

lemma switch_by_idx_never_switches:
  "switch_by_idx n d =
     (if int (length (window_handles d)) \<le> n then Inl IndexError
      else Inl (NoSuchWindowException (''Invalid Window ID: '' @ str_int n)))"
  by (auto simp: switch_by_idx_def Let_def py_index_beyond)

lemma WindowManager_switch_index:
  "length (str_nat n) \<le> max_str_digits \<Longrightarrow>
   WindowManager_switch (Some (str_nat n)) self d =
     (if n < length (window_handles d)
      then (Inl (NoSuchWindowException (''Invalid Window ID: '' @ str_nat n)), self)
      else (Inl IndexError, self))"
  by (simp add: WindowManager_switch_def str_nat_nonempty isdigit_str_nat py_int_str_nat
      switch_by_idx_never_switches py_str_def)

text \<open>
  C1. The claim: a numeric string that is a position in the list of window handles
  switches to the window there, and one out of range fails with an invalid-window error.
  The code does neither. With the two windows of the concrete session, \<^verbatim>\<open>switch("1")\<close>
  raises \<^verbatim>\<open>NoSuchWindowException\<close> and \<^verbatim>\<open>switch("2")\<close> raises \<^verbatim>\<open>IndexError\<close>: the
  test \<^verbatim>\<open>len(wnd_handlers) <= win_index\<close> of \<^verbatim>\<open>_switch_by_idx\<close> is the wrong way round.
\<close>

theorem switch_by_index_fails:
  "WindowManager_switch (Some ''1'') WindowManager_init example_driver =
     (Inl (NoSuchWindowException ''Invalid Window ID: 1''), WindowManager_init) \<and>
   WindowManager_switch (Some ''2'') WindowManager_init example_driver =
     (Inl IndexError, WindowManager_init)"
  by (simp add: WindowManager_switch_def switch_by_idx_never_switches isdigit_def digit_val_def
      py_int_def strip_def is_space_def digits_def max_str_digits_def py_str_def
      example_driver_def)

lemma win_ser_not_digit: "startswith s ''win_ser_'' \<Longrightarrow> \<not> isdigit s \<and> s \<noteq> []"
  by (cases s) (auto simp: startswith_def isdigit_def digit_val_def)

lemma switch_by_win_ser_keeps:
  "windows self a = Some x \<Longrightarrow> windows (snd (switch_by_win_ser s self d)) a = Some x"
  by (auto simp: switch_by_win_ser_def Let_def split: sum.splits option.splits)

lemma reraise_snd:
  "snd (case r of Inl (NoSuchWindowException m) \<Rightarrow> (Inl (NoSuchWindowException t), w) | _ \<Rightarrow> (r, w)) = w"
  by (simp split: sum.splits error.splits)

lemma WindowManager_switch_snd:
  "snd (WindowManager_switch name self d) =
     (case name of
        None \<Rightarrow> self
      | Some s \<Rightarrow>
          if s \<noteq> [] \<and> \<not> isdigit s \<and> startswith s ''win_ser_''
          then snd (switch_by_win_ser s self d) else self)"
  by (simp add: WindowManager_switch_def Let_def reraise_snd split_beta
      split: option.splits sum.splits)

lemma WindowManager_switch_keeps:
  "windows self a = Some x \<Longrightarrow> windows (snd (WindowManager_switch name self d)) a = Some x"
  by (simp add: WindowManager_switch_snd switch_by_win_ser_keeps split: option.splits)

lemma WindowManager_close_keeps:
  "windows self a = Some x \<Longrightarrow> windows (snd (WindowManager_close name self d)) a = Some x"
  using WindowManager_switch_keeps[of self a x name d]
  by (auto simp: WindowManager_close_def split: sum.splits option.splits prod.splits)

text \<open>
  C5. Let \<open>alias\<close> begin with \<^verbatim>\<open>win_ser_\<close>, differ from \<^verbatim>\<open>win_ser_local\<close> and be unbound
  in the registry, and let some window be open. The first \<^verbatim>\<open>switch\<close> binds the alias to
  the last window handle and focuses that window. A later \<^verbatim>\<open>switch\<close> with the alias, on
  any state of the driver in which that window is still open, focuses the same window
  again, whatever the last handle is by then, and leaves the registry as it is. No call
  of \<^verbatim>\<open>switch\<close> or \<^verbatim>\<open>close\<close> removes or changes a binding of the registry.
\<close>

theorem win_ser_alias_remembered:
  assumes "startswith alias ''win_ser_''" and "alias \<noteq> ''win_ser_local''"
    and "windows self alias = None" and "window_handles d \<noteq> []"
    and "h = last (window_handles d)"
    and "self' = self\<lparr>windows := (windows self)(alias \<mapsto> h)\<rparr>"
  shows "WindowManager_switch (Some alias) self d = (Inr (d\<lparr>current_window := h\<rparr>), self') \<and>
    (\<forall>d2. h \<in> set (window_handles d2) \<longrightarrow>
       WindowManager_switch (Some alias) self' d2 = (Inr (d2\<lparr>current_window := h\<rparr>), self')) \<and>
    (\<forall>w a x name d3. windows w a = Some x \<longrightarrow>
       windows (snd (WindowManager_switch name w d3)) a = Some x \<and>
       windows (snd (WindowManager_close name w d3)) a = Some x)"
proof -
  from assms(1) have nd: "\<not> isdigit alias" "alias \<noteq> []"
    using win_ser_not_digit by auto
  from assms(4,5) have hin: "h \<in> set (window_handles d)" by simp
  have 1: "WindowManager_switch (Some alias) self d = (Inr (d\<lparr>current_window := h\<rparr>), self')"
    using assms nd hin
    by (simp add: WindowManager_switch_def switch_by_win_ser_def py_index_last switch_to_window_def)
  have b: "windows self' alias = Some h" using assms(6) by simp
  have 2: "WindowManager_switch (Some alias) self' d2 = (Inr (d2\<lparr>current_window := h\<rparr>), self')"
    if "h \<in> set (window_handles d2)" for d2
    using assms(1,2) nd b that
    by (simp add: WindowManager_switch_def switch_by_win_ser_def switch_to_window_def)
  have 3: "windows (snd (WindowManager_switch name w d3)) a = Some x \<and>
      windows (snd (WindowManager_close name w d3)) a = Some x"
    if "windows w a = Some x" for w a x name d3
    using that WindowManager_switch_keeps WindowManager_close_keeps by blast
  from 1 2 3 show ?thesis by blast
qed

theorem win_ser_alias_remembered_witness:
  "WindowManager_switch (Some ''win_ser_abc'') WindowManager_init example_driver =
     (Inr (example_driver\<lparr>current_window := ''w1''\<rparr>),
      \<lparr>windows = [''win_ser_abc'' \<mapsto> ''w1'']\<rparr>) \<and>
   WindowManager_switch (Some ''win_ser_abc'') \<lparr>windows = [''win_ser_abc'' \<mapsto> ''w1'']\<rparr>
       (example_driver\<lparr>window_handles := [''w0'', ''w1'', ''w2''], current_window := ''w2''\<rparr>) =
     (Inr (example_driver\<lparr>window_handles := [''w0'', ''w1'', ''w2''], current_window := ''w1''\<rparr>),
      \<lparr>windows = [''win_ser_abc'' \<mapsto> ''w1'']\<rparr>)"
proof -
  let ?d2 = "example_driver\<lparr>window_handles := [''w0'', ''w1'', ''w2''], current_window := ''w2''\<rparr>"
  have a: "startswith ''win_ser_abc'' ''win_ser_''"
    by (simp add: startswith_def)
  have b: "''win_ser_abc'' \<noteq> ''win_ser_local''"
    by simp
  have c: "windows WindowManager_init ''win_ser_abc'' = None"
    by (simp add: WindowManager_init_def)
  have d: "window_handles example_driver \<noteq> []"
    by (simp add: example_driver_def)
  have e: "''w1'' = last (window_handles example_driver)"
    by (simp add: example_driver_def)
  have f: "\<lparr>windows = [''win_ser_abc'' \<mapsto> ''w1'']\<rparr> =
      WindowManager_init\<lparr>windows := (windows WindowManager_init)(''win_ser_abc'' \<mapsto> ''w1'')\<rparr>"
    by (simp add: WindowManager_init_def)
  note T = win_ser_alias_remembered[OF a b c d e f]
  have g: "''w1'' \<in> set (window_handles ?d2)"
    by simp
  from T have 1: "WindowManager_switch (Some ''win_ser_abc'') WindowManager_init example_driver =
     (Inr (example_driver\<lparr>current_window := ''w1''\<rparr>), \<lparr>windows = [''win_ser_abc'' \<mapsto> ''w1'']\<rparr>)"
    by (rule conjunct1)
  from T g have 2: "WindowManager_switch (Some ''win_ser_abc'') \<lparr>windows = [''win_ser_abc'' \<mapsto> ''w1'']\<rparr> ?d2 =
     (Inr (?d2\<lparr>current_window := ''w1''\<rparr>), \<lparr>windows = [''win_ser_abc'' \<mapsto> ''w1'']\<rparr>)"
    by blast
  have 3: "?d2\<lparr>current_window := ''w1''\<rparr> =
      example_driver\<lparr>window_handles := [''w0'', ''w1'', ''w2''], current_window := ''w1''\<rparr>"
    by simp
  from 1 2 3 show ?thesis
    by (simp only:) 
qed

end
